theory Spec2Isabelle
  imports Main "HOL-Library.Word"
begin

unbundle bit_operations_syntax

section \<open>The kernel's boot path: \<open>software/kernel/main.c\<close>\<close>

text \<open>
  \<open>main.c\<close> holds two functions. \<open>kernel_main\<close> runs on hardware thread 0: it calls
  \<open>vm_init\<close>, prints a greeting, asks \<open>kmalloc\<close> for one page, stores a sentinel through
  the returned pointer, prints what it reads back, stores all-ones to the thread enable
  register at \<open>0xffff0100\<close> and spins in \<open>for (;;)\<close>. \<open>thread_n_main\<close> is what every
  released thread runs: it prints control register 0 and spins.

  Both are embedded as functions on an explicit machine state. Every action the code
  performs is appended to a trace, so that order, number and operands of the actions
  can be stated. The callees \<open>vm_init\<close> and \<open>kmalloc\<close> are declared in \<open>vm.h\<close> and
  \<open>kernel_heap.h\<close>; they are parameters of the embedding.
\<close>

subsection \<open>Memory\<close>

type_synonym addr = "32 word"
type_synonym u32 = "32 word"

text \<open>
  Memory is byte addressed. \<open>writable\<close> says which bytes are backed by mapped, writable
  storage: a store to any other byte leaves the memory as it was, so that a read-back
  through an unmapped pointer can differ from what was written. The trap that the
  processor raises on an access to an unmapped address is not part of the embedding: the
  trace records that the access is issued, and the actions recorded after such an access
  are those of a run in which it completes. Until the thread enable
  register is written, thread 0 is the only thread that runs, so nothing else changes
  memory between the store and the load of the smoke test. Alignment is not modelled.
\<close>

record memory =
  bytes :: "addr \<Rightarrow> 8 word"
  writable :: "addr \<Rightarrow> bool"

definition store8 :: "addr \<Rightarrow> 8 word \<Rightarrow> memory \<Rightarrow> memory" where
  "store8 a b m = (if writable m a then m\<lparr>bytes := (bytes m)(a := b)\<rparr> else m)"

text \<open>A 32-bit access touches four consecutive bytes, least significant byte first.\<close>

definition mem_store32 :: "addr \<Rightarrow> u32 \<Rightarrow> memory \<Rightarrow> memory" where
  "mem_store32 a v m =
     store8 (a + 3) (ucast (drop_bit 24 v))
       (store8 (a + 2) (ucast (drop_bit 16 v))
         (store8 (a + 1) (ucast (drop_bit 8 v))
           (store8 a (ucast v) m)))"

definition mem_load32 :: "addr \<Rightarrow> memory \<Rightarrow> u32" where
  "mem_load32 a m =
     ucast (bytes m a)
       OR push_bit 8 (ucast (bytes m (a + 1)))
       OR push_bit 16 (ucast (bytes m (a + 2)))
       OR push_bit 24 (ucast (bytes m (a + 3)))"

subsection \<open>Diagnostic output\<close>

text \<open>
  Modelled from the spec: \<open>kprintf\<close> is declared in \<open>libc.h\<close> and its body is not part of
  \<open>main.c\<close>. The spec describes it as a format-string-and-arguments primitive, used for
  a literal string, for a 32-bit value in fixed-width hexadecimal and for an integer
  with no explicit width. \<open>kformat\<close> renders the conversions \<open>%d\<close> (signed decimal) and
  \<open>%x\<close> (lowercase hexadecimal) with an optional \<open>0\<close> flag and a decimal field width;
  every other character is copied. A conversion with no argument left prints nothing.
\<close>

definition hex_digit :: "nat \<Rightarrow> char" where
  "hex_digit n = ''0123456789abcdef'' ! (n mod 16)"

definition dec_digit :: "nat \<Rightarrow> char" where
  "dec_digit n = ''0123456789'' ! (n mod 10)"

definition strip_zeros :: "string \<Rightarrow> string" where
  "strip_zeros s =
     (let t = dropWhile (\<lambda>c. c = CHR ''0'') s in if t = [] then ''0'' else t)"

definition hex_of :: "u32 \<Rightarrow> string" where
  "hex_of v =
     strip_zeros (map (\<lambda>i. hex_digit (unat (drop_bit (4 * i) v AND 0xf))) [7, 6, 5, 4, 3, 2, 1, 0])"

definition dec_of_nat :: "nat \<Rightarrow> string" where
  "dec_of_nat n =
     strip_zeros (map (\<lambda>i. dec_digit (n div 10 ^ i)) [9, 8, 7, 6, 5, 4, 3, 2, 1, 0])"

definition dec_of :: "u32 \<Rightarrow> string" where
  "dec_of v = (if sint v < 0 then CHR ''-'' # dec_of_nat (nat (- sint v)) else dec_of_nat (nat (sint v)))"

definition pad :: "bool \<Rightarrow> nat \<Rightarrow> string \<Rightarrow> string" where
  "pad zero width s = replicate (width - length s) (if zero then CHR ''0'' else CHR '' '') @ s"

definition is_digit :: "char \<Rightarrow> bool" where
  "is_digit c = (c \<in> set ''0123456789'')"

definition digit_val :: "char \<Rightarrow> nat" where
  "digit_val c = of_char c - 48"

datatype fstate = Lit | Directive bool nat

fun kformat :: "fstate \<Rightarrow> string \<Rightarrow> u32 list \<Rightarrow> string" where
  "kformat st [] args = []"
| "kformat Lit (c # cs) args =
     (if c = CHR ''%'' then kformat (Directive False 0) cs args
      else c # kformat Lit cs args)"
| "kformat (Directive zero width) (c # cs) args =
     (if c = CHR ''d'' then
        (case args of [] \<Rightarrow> kformat Lit cs []
         | a # as \<Rightarrow> pad zero width (dec_of a) @ kformat Lit cs as)
      else if c = CHR ''x'' then
        (case args of [] \<Rightarrow> kformat Lit cs []
         | a # as \<Rightarrow> pad zero width (hex_of a) @ kformat Lit cs as)
      else if c = CHR ''0'' \<and> width = 0 \<and> \<not> zero then kformat (Directive True 0) cs args
      else if is_digit c then kformat (Directive zero (10 * width + digit_val c)) cs args
      else c # kformat Lit cs args)"

subsection \<open>Machine state, actions and outcomes\<close>

text \<open>The actions of the two functions, in the order in which the code issues them.\<close>

datatype event =
    Call_vm_init
  | Ret_vm_init
  | Call_kmalloc u32
  | Ret_kmalloc addr
  | Kprintf string "u32 list"
  | Store addr u32
  | Load addr u32
  | Read_control_reg nat u32

record world =
  mem :: memory
  console :: string
  trace :: "event list"

text \<open>
  A call either comes back with a value, or control never comes back: because a callee
  did not return, or because the code sits in \<open>for (;;)\<close>. The world reached is kept in
  each case.
\<close>

datatype 'a outcome =
    Returns 'a world
  | Callee_hangs world
  | Spinning world

fun final :: "'a outcome \<Rightarrow> world" where
  "final (Returns x w) = w"
| "final (Callee_hangs w) = w"
| "final (Spinning w) = w"

fun returned :: "'a outcome \<Rightarrow> bool" where
  "returned (Returns x w) = True"
| "returned (Callee_hangs w) = False"
| "returned (Spinning w) = False"

fun spinning :: "'a outcome \<Rightarrow> bool" where
  "spinning (Spinning w) = True"
| "spinning (Returns x w) = False"
| "spinning (Callee_hangs w) = False"

text \<open>Sequencing: the next statement runs only when the previous one came back.\<close>

fun seq :: "'a outcome \<Rightarrow> ('a \<Rightarrow> world \<Rightarrow> 'b outcome) \<Rightarrow> 'b outcome" where
  "seq (Returns x w) k = k x w"
| "seq (Callee_hangs w) k = Callee_hangs w"
| "seq (Spinning w) k = Spinning w"

definition log :: "event list \<Rightarrow> world \<Rightarrow> world" where
  "log evs w = w\<lparr>trace := trace w @ evs\<rparr>"

text \<open>
  The external collaborators. \<open>vm_init_impl\<close> and \<open>kmalloc_impl\<close> act on memory; \<open>None\<close>
  is a call that never returns. \<open>kmalloc_impl\<close> gets the requested size and returns the
  pointer, which the C convention allows to be null (\<open>0\<close>).
\<close>

record env =
  vm_init_impl :: "memory \<Rightarrow> memory option"
  kmalloc_impl :: "u32 \<Rightarrow> memory \<Rightarrow> (addr \<times> memory) option"

definition vm_init :: "env \<Rightarrow> world \<Rightarrow> unit outcome" where
  "vm_init e w =
     (case vm_init_impl e (mem w) of
        None \<Rightarrow> Callee_hangs (log [Call_vm_init] w)
      | Some m \<Rightarrow> Returns () (log [Call_vm_init, Ret_vm_init] (w\<lparr>mem := m\<rparr>)))"

definition kmalloc :: "env \<Rightarrow> u32 \<Rightarrow> world \<Rightarrow> addr outcome" where
  "kmalloc e n w =
     (case kmalloc_impl e n (mem w) of
        None \<Rightarrow> Callee_hangs (log [Call_kmalloc n] w)
      | Some (p, m) \<Rightarrow> Returns p (log [Call_kmalloc n, Ret_kmalloc p] (w\<lparr>mem := m\<rparr>)))"

text \<open>
  Modelled from the spec: \<open>kprintf\<close> itself, whose body is not part of \<open>main.c\<close>. It
  appends the text rendered by \<open>kformat\<close> to the console and returns.
\<close>

definition kprintf :: "string \<Rightarrow> u32 list \<Rightarrow> world \<Rightarrow> unit outcome" where
  "kprintf fmt args w =
     Returns () (log [Kprintf fmt args] (w\<lparr>console := console w @ kformat Lit fmt args\<rparr>))"

text \<open>Accesses through \<open>volatile unsigned int *\<close>: each one is performed and logged.\<close>

definition store32 :: "addr \<Rightarrow> u32 \<Rightarrow> world \<Rightarrow> unit outcome" where
  "store32 a v w = Returns () (log [Store a v] (w\<lparr>mem := mem_store32 a v (mem w)\<rparr>))"

definition load32 :: "addr \<Rightarrow> world \<Rightarrow> u32 outcome" where
  "load32 a w = Returns (mem_load32 a (mem w)) (log [Load a (mem_load32 a (mem w))] w)"

text \<open>
  \<open>__builtin_nyuzi_read_control_reg\<close>: reads a register of the executing hardware
  thread, given as \<open>cr\<close>; memory is not involved.
\<close>

definition read_control_reg :: "(nat \<Rightarrow> u32) \<Rightarrow> nat \<Rightarrow> world \<Rightarrow> u32 outcome" where
  "read_control_reg cr i w = Returns (cr i) (log [Read_control_reg i (cr i)] w)"

text \<open>
  \<open>for (;;) ;\<close> has an empty body and no exit. With any amount of fuel the loop is still
  running when the fuel is used up.
\<close>

fun for_ever :: "nat \<Rightarrow> world \<Rightarrow> unit outcome" where
  "for_ever 0 w = Spinning w"
| "for_ever (Suc n) w = for_ever n w"

subsection \<open>The two functions of \<open>main.c\<close>\<close>

definition thread_enable_reg :: addr where
  "thread_enable_reg = 0xffff0100"

definition kernel_main :: "env \<Rightarrow> nat \<Rightarrow> world \<Rightarrow> unit outcome" where
  "kernel_main e fuel w0 =
     seq (vm_init e w0) (\<lambda>_ w1.
     seq (kprintf ''Hello kernel land\<newline>'' [] w1) (\<lambda>_ w2.
     seq (kmalloc e 0x1000 w2) (\<lambda>block w3.
     seq (store32 block 0xabcdef12 w3) (\<lambda>_ w4.
     seq (load32 block w4) (\<lambda>v w5.
     seq (kprintf ''%08x\<newline>'' [v] w5) (\<lambda>_ w6.
     seq (store32 0xffff0100 0xffffffff w6) (\<lambda>_ w7.
     for_ever fuel w7)))))))"

definition thread_n_main :: "(nat \<Rightarrow> u32) \<Rightarrow> nat \<Rightarrow> world \<Rightarrow> unit outcome" where
  "thread_n_main cr fuel w0 =
     seq (read_control_reg cr 0 w0) (\<lambda>v w1.
     seq (kprintf ''%d'' [v] w1) (\<lambda>_ w2.
     for_ever fuel w2))"

text \<open>The state at reset: nothing printed, nothing done.\<close>

definition boot_world :: "memory \<Rightarrow> world" where
  "boot_world m = \<lparr>mem = m, console = [], trace = []\<rparr>"

subsection \<open>Vocabulary of the properties\<close>

fun is_store :: "event \<Rightarrow> bool" where
  "is_store (Store a v) = True"
| "is_store ev = False"

fun is_store_to :: "addr \<Rightarrow> event \<Rightarrow> bool" where
  "is_store_to r (Store a v) = (a = r)"
| "is_store_to r ev = False"

text \<open>
  What a successful allocation of \<open>n\<close> bytes hands out: a pointer that is not null, to
  \<open>n\<close> bytes of mapped, writable memory.
\<close>

definition usable_block :: "memory \<Rightarrow> addr \<Rightarrow> nat \<Rightarrow> bool" where
  "usable_block m p n = (p \<noteq> 0 \<and> (\<forall>i<n. writable m (p + of_nat i)))"

text \<open>Eight hexadecimal digits, most significant nibble first, zeros included.\<close>

definition hex8 :: "u32 \<Rightarrow> string" where
  "hex8 v = map (\<lambda>i. hex_digit (unat (drop_bit (4 * i) v AND 0xf))) [7, 6, 5, 4, 3, 2, 1, 0]"

subsection \<open>Concrete machines\<close>

text \<open>
  A memory with nothing mapped, and three allocators: one that maps the page it hands
  out, one that answers with a null pointer, and one that never answers.
\<close>

definition blank_memory :: memory where
  "blank_memory = \<lparr>bytes = (\<lambda>_. 0), writable = (\<lambda>_. False)\<rparr>"

definition page_memory :: memory where
  "page_memory = blank_memory\<lparr>writable := (\<lambda>a. a - 0x10000 < 0x1000 \<or> writable blank_memory a)\<rparr>"

definition page_env :: env where
  "page_env = \<lparr>vm_init_impl = Some,
     kmalloc_impl = (\<lambda>n m. Some (0x10000, m\<lparr>writable := (\<lambda>a. a - 0x10000 < n \<or> writable m a)\<rparr>))\<rparr>"

definition null_env :: env where
  "null_env = \<lparr>vm_init_impl = Some, kmalloc_impl = (\<lambda>n m. Some (0, m))\<rparr>"

definition hang_env :: env where
  "hang_env = \<lparr>vm_init_impl = Some, kmalloc_impl = (\<lambda>n m. None)\<rparr>"

section \<open>Facts about the embedding\<close>

subsection \<open>Memory\<close>

lemma writable_store8 [simp]: "writable (store8 a b m) = writable m"
  by (simp add: store8_def)

lemma bytes_store8:
  "bytes (store8 a b m) = (if writable m a then (bytes m)(a := b) else bytes m)"
  by (simp add: store8_def)

lemma writable_mem_store32 [simp]: "writable (mem_store32 a v m) = writable m"
  by (simp add: mem_store32_def)

lemma join_bytes:
  fixes v :: u32
  shows "ucast (ucast v :: 8 word)
       OR push_bit 8 (ucast (ucast (drop_bit 8 v) :: 8 word))
       OR push_bit 16 (ucast (ucast (drop_bit 16 v) :: 8 word))
       OR push_bit 24 (ucast (ucast (drop_bit 24 v) :: 8 word)) = v"
proof (rule bit_word_eqI)
  fix n :: nat
  assume "n < LENGTH(32)"
  then have n: "n < 32" by simp
  have c: "24 \<le> n \<Longrightarrow> 24 + (n - 24) = n" "16 \<le> n \<Longrightarrow> 16 + (n - 16) = n"
    "8 \<le> n \<Longrightarrow> 8 + (n - 8) = n"
    by simp_all
  consider "n < 8" | "8 \<le> n" "n < 16" | "16 \<le> n" "n < 24" | "24 \<le> n"
    by linarith
  then show "bit (ucast (ucast v :: 8 word)
       OR push_bit 8 (ucast (ucast (drop_bit 8 v) :: 8 word))
       OR push_bit 16 (ucast (ucast (drop_bit 16 v) :: 8 word))
       OR push_bit 24 (ucast (ucast (drop_bit 24 v) :: 8 word)) :: u32) n = bit v n"
    using n by cases (auto simp: bit_simps c)
qed

lemma addr_distinct:
  fixes a :: addr
  shows "a + 1 \<noteq> a" "a + 2 \<noteq> a" "a + 3 \<noteq> a" "a + 2 \<noteq> a + 1" "a + 3 \<noteq> a + 1" "a + 3 \<noteq> a + 2"
  by simp_all

lemma load_store_same:
  assumes "writable m a" "writable m (a + 1)" "writable m (a + 2)" "writable m (a + 3)"
  shows "mem_load32 a (mem_store32 a v m) = v"
  using assms
  by (simp add: mem_load32_def mem_store32_def bytes_store8 addr_distinct join_bytes)

lemma load_store_unmapped:
  assumes "\<not> writable m a" "\<not> writable m (a + 1)" "\<not> writable m (a + 2)" "\<not> writable m (a + 3)"
  shows "mem_store32 a v m = m"
  using assms by (simp add: mem_store32_def store8_def)

subsection \<open>What the two functions do\<close>

lemma for_ever_spins: "for_ever n w = Spinning w"
  by (induction n) simp_all

lemma kernel_main_vm_hangs:
  assumes "vm_init_impl e (mem w) = None"
  shows "kernel_main e fuel w = Callee_hangs (w\<lparr>trace := trace w @ [Call_vm_init]\<rparr>)"
  using assms by (simp add: kernel_main_def vm_init_def log_def)

lemma kernel_main_kmalloc_hangs:
  assumes "vm_init_impl e (mem w) = Some m1" "kmalloc_impl e 0x1000 m1 = None"
  shows "kernel_main e fuel w =
     Callee_hangs (w\<lparr>mem := m1,
       console := console w @ ''Hello kernel land\<newline>'',
       trace := trace w @ [Call_vm_init, Ret_vm_init,
         Kprintf ''Hello kernel land\<newline>'' [], Call_kmalloc 0x1000]\<rparr>)"
  using assms by (simp add: kernel_main_def vm_init_def kprintf_def kmalloc_def log_def)

lemma kernel_main_runs:
  assumes "vm_init_impl e (mem w) = Some m1" "kmalloc_impl e 0x1000 m1 = Some (p, m2)"
  shows "kernel_main e fuel w =
     Spinning (w\<lparr>mem := mem_store32 0xffff0100 0xffffffff (mem_store32 p 0xabcdef12 m2),
       console := console w @ ''Hello kernel land\<newline>''
          @ kformat Lit ''%08x\<newline>'' [mem_load32 p (mem_store32 p 0xabcdef12 m2)],
       trace := trace w @ [Call_vm_init, Ret_vm_init,
           Kprintf ''Hello kernel land\<newline>'' [],
           Call_kmalloc 0x1000, Ret_kmalloc p,
           Store p 0xabcdef12,
           Load p (mem_load32 p (mem_store32 p 0xabcdef12 m2)),
           Kprintf ''%08x\<newline>'' [mem_load32 p (mem_store32 p 0xabcdef12 m2)],
           Store 0xffff0100 0xffffffff]\<rparr>)"
  using assms
  by (simp add: kernel_main_def vm_init_def kprintf_def kmalloc_def store32_def load32_def
      log_def for_ever_spins)

lemma thread_n_main_runs:
  "thread_n_main cr fuel w =
     Spinning (w\<lparr>console := console w @ kformat Lit ''%d'' [cr 0],
       trace := trace w @ [Read_control_reg 0 (cr 0), Kprintf ''%d'' [cr 0]]\<rparr>)"
  by (simp add: thread_n_main_def read_control_reg_def kprintf_def log_def for_ever_spins)

lemma kernel_main_trace_cases:
  obtains (vm_hangs) "vm_init_impl e m = None"
      "kernel_main e fuel (boot_world m) = Callee_hangs \<lparr>mem = m, console = [], trace = [Call_vm_init]\<rparr>"
  | (kmalloc_hangs) m1 where "vm_init_impl e m = Some m1" "kmalloc_impl e 0x1000 m1 = None"
      "trace (final (kernel_main e fuel (boot_world m))) =
         [Call_vm_init, Ret_vm_init, Kprintf ''Hello kernel land\<newline>'' [], Call_kmalloc 0x1000]"
      "\<not> returned (kernel_main e fuel (boot_world m))"
  | (runs) m1 p m2 where "vm_init_impl e m = Some m1" "kmalloc_impl e 0x1000 m1 = Some (p, m2)"
      "trace (final (kernel_main e fuel (boot_world m))) =
         [Call_vm_init, Ret_vm_init,
           Kprintf ''Hello kernel land\<newline>'' [],
           Call_kmalloc 0x1000, Ret_kmalloc p,
           Store p 0xabcdef12,
           Load p (mem_load32 p (mem_store32 p 0xabcdef12 m2)),
           Kprintf ''%08x\<newline>'' [mem_load32 p (mem_store32 p 0xabcdef12 m2)],
           Store 0xffff0100 0xffffffff]"
      "spinning (kernel_main e fuel (boot_world m))"
proof (cases "vm_init_impl e m")
  case None
  then show ?thesis
    using kernel_main_vm_hangs [of e "boot_world m" fuel] vm_hangs
    by (simp add: boot_world_def)
next
  case (Some m1)
  show ?thesis
  proof (cases "kmalloc_impl e 0x1000 m1")
    case None
    then show ?thesis
      using Some kernel_main_kmalloc_hangs [of e "boot_world m" m1 fuel] kmalloc_hangs
      by (simp add: boot_world_def)
  next
    case (Some pm)
    obtain p m2 where pm: "pm = (p, m2)" by (cases pm)
    show ?thesis
      using \<open>vm_init_impl e m = Some m1\<close> Some pm
        kernel_main_runs [of e "boot_world m" m1 p m2 fuel] runs
      by (simp add: boot_world_def)
  qed
qed

lemma split_after_two:
  assumes "x # y # zs = pre @ s # post" "s \<noteq> x" "s \<noteq> y"
  shows "\<exists>rest. pre = x # y # rest"
  using assms by (auto simp: Cons_eq_append_conv)

subsection \<open>The concrete machines\<close>

lemma page_env_run:
  "vm_init_impl page_env blank_memory = Some blank_memory"
  "kmalloc_impl page_env 0x1000 blank_memory = Some (0x10000, page_memory)"
  by (simp_all add: page_env_def page_memory_def)

lemma page_memory_readback: "mem_load32 0x10000 (mem_store32 0x10000 v page_memory) = v"
  by (rule load_store_same) (simp_all add: page_memory_def)

lemma null_env_run:
  "vm_init_impl null_env blank_memory = Some blank_memory"
  "kmalloc_impl null_env 0x1000 blank_memory = Some (0, blank_memory)"
  by (simp_all add: null_env_def)

lemma hang_env_run:
  "vm_init_impl hang_env blank_memory = Some blank_memory"
  "kmalloc_impl hang_env 0x1000 blank_memory = None"
  by (simp_all add: hang_env_def)

lemma blank_memory_store: "mem_store32 a v blank_memory = blank_memory"
  by (rule load_store_unmapped) (simp_all add: blank_memory_def)

lemma blank_memory_load: "mem_load32 a blank_memory = 0"
  by (simp add: mem_load32_def blank_memory_def)

lemma boot_world_simps [simp]:
  "mem (boot_world m) = m" "console (boot_world m) = []" "trace (boot_world m) = []"
  by (simp_all add: boot_world_def)

lemma page_env_trace:
  "trace (final (kernel_main page_env fuel (boot_world blank_memory))) =
     [Call_vm_init, Ret_vm_init, Kprintf ''Hello kernel land\<newline>'' [],
      Call_kmalloc 0x1000, Ret_kmalloc 0x10000, Store 0x10000 0xabcdef12,
      Load 0x10000 0xabcdef12, Kprintf ''%08x\<newline>'' [0xabcdef12],
      Store 0xffff0100 0xffffffff]"
  using page_env_run
  by (simp add: kernel_main_runs [where ?m1.0 = blank_memory and ?m2.0 = page_memory and p = "0x10000"]
      page_memory_readback)

lemma null_env_trace:
  "trace (final (kernel_main null_env fuel (boot_world blank_memory))) =
     [Call_vm_init, Ret_vm_init, Kprintf ''Hello kernel land\<newline>'' [],
      Call_kmalloc 0x1000, Ret_kmalloc 0, Store 0 0xabcdef12,
      Load 0 0, Kprintf ''%08x\<newline>'' [0],
      Store 0xffff0100 0xffffffff]"
  using null_env_run
  by (simp add: kernel_main_runs [where ?m1.0 = blank_memory and ?m2.0 = blank_memory and p = 0]
      blank_memory_store blank_memory_load)

lemma usable_block_readback:
  assumes "usable_block m p n" "4 \<le> n"
  shows "mem_load32 p (mem_store32 p v m) = v"
proof (rule load_store_same)
  from assms have w: "\<And>i. i < 4 \<Longrightarrow> writable m (p + of_nat i)"
    by (simp add: usable_block_def)
  from w [of 0] show "writable m p" by simp
  from w [of 1] show "writable m (p + 1)" by simp
  from w [of 2] show "writable m (p + 2)" by simp
  from w [of 3] show "writable m (p + 3)" by simp
qed

lemma page_memory_usable: "usable_block page_memory 0x10000 0x1000"
proof -
  have "of_nat i < (0x1000 :: addr)" if "i < 0x1000" for i :: nat
    using that by (simp add: word_less_nat_alt unat_of_nat)
  then show ?thesis
    by (simp add: usable_block_def page_memory_def)
qed

subsection \<open>The formatter\<close>

lemma pad_strip_zeros:
  assumes "s \<noteq> []"
  shows "pad True (length s) (strip_zeros s) = s"
proof -
  define z where "z = takeWhile (\<lambda>c. c = CHR ''0'') s"
  define t where "t = dropWhile (\<lambda>c. c = CHR ''0'') s"
  have s: "s = z @ t" by (simp add: z_def t_def)
  have "\<forall>c\<in>set z. c = CHR ''0''" unfolding z_def by (auto dest: set_takeWhileD)
  then have z: "replicate (length z) CHR ''0'' = z" by (rule replicate_length_same)
  have strip: "strip_zeros s = (if t = [] then ''0'' else t)"
    unfolding strip_zeros_def t_def Let_def ..
  show ?thesis
  proof (cases "t = []")
    case True
    with s assms obtain k where k: "length z = Suc k" by (cases z) auto
    have sz: "strip_zeros s = [CHR ''0'']" using True strip by simp
    have ls: "length s = Suc k" using s True k by simp
    have "pad True (length s) (strip_zeros s) = replicate k CHR ''0'' @ [CHR ''0'']"
      unfolding sz ls pad_def by simp
    also have "\<dots> = replicate (Suc k) CHR ''0''" by (simp add: replicate_append_same)
    also have "\<dots> = z" using z k by simp
    finally show ?thesis using s True by simp
  next
    case False
    then have st: "strip_zeros s = t" using strip by simp
    have ls: "length s = length z + length t" using s by simp
    have "pad True (length s) (strip_zeros s) = replicate (length z) CHR ''0'' @ t"
      unfolding st ls pad_def by simp
    then show ?thesis using z s by simp
  qed
qed

lemma length_hex8: "length (hex8 v) = 8"
  by (simp add: hex8_def)

lemma hex_of_hex8: "hex_of v = strip_zeros (hex8 v)"
  by (simp add: hex_of_def hex8_def)

lemma kformat_hex: "kformat Lit ''%08x\<newline>'' [v] = hex8 v @ ''\<newline>''"
proof -
  have "hex8 v \<noteq> []" using length_hex8 [of v] by auto
  then have "pad True 8 (hex_of v) = hex8 v"
    using pad_strip_zeros [of "hex8 v"] by (simp add: hex_of_hex8 length_hex8)
  then show ?thesis by (simp add: is_digit_def digit_val_def)
qed

lemma kformat_dec: "kformat Lit ''%d'' [v] = dec_of v"
  by (simp add: pad_def)

lemma hex8_sentinel: "hex8 0xabcdef12 = ''abcdef12''"
  by (simp add: hex8_def hex_digit_def)

lemma set_strip_zeros: "set (strip_zeros s) \<subseteq> insert CHR ''0'' (set s)"
  by (auto simp: strip_zeros_def Let_def dest: set_dropWhileD)

lemma dec_digit_in: "dec_digit n \<in> set ''0123456789''"
proof -
  have "n mod 10 < length ''0123456789''" by simp
  then show ?thesis unfolding dec_digit_def by (rule nth_mem)
qed

lemma set_dec_of_nat: "set (dec_of_nat n) \<subseteq> set ''0123456789''"
proof -
  have "set (map (\<lambda>i. dec_digit (n div 10 ^ i)) [9, 8, 7, 6, 5, 4, 3, 2, 1, 0::nat])
      \<subseteq> set ''0123456789''"
    using dec_digit_in by auto
  moreover have "CHR ''0'' \<in> set ''0123456789''" by simp
  ultimately show ?thesis
    unfolding dec_of_nat_def using set_strip_zeros by blast
qed

lemma newline_not_in_dec_of: "CHR ''\<newline>'' \<notin> set (dec_of v)"
proof -
  have d: "CHR ''\<newline>'' \<notin> set ''0123456789''" by simp
  have "CHR ''\<newline>'' \<notin> set (dec_of_nat n)" for n
    using set_dec_of_nat [of n] d by (rule_tac notI) (erule notE, erule subsetD)
  then show ?thesis by (simp add: dec_of_def)
qed

section \<open>The claims\<close>

text \<open>
  C1. In every execution of \<open>kernel_main\<close> from reset, whatever the callees do and however
  long the run is observed, a store to the thread enable register is preceded by the call
  of \<open>vm_init\<close> and by its return: the trace up to any such store starts with both. No
  run has the store before or without the initialisation.
\<close>

theorem release_after_vm_init:
  assumes "trace (final (kernel_main e fuel (boot_world m))) = pre @ Store thread_enable_reg v # post"
  shows "\<exists>rest. pre = Call_vm_init # Ret_vm_init # rest"
proof (cases rule: kernel_main_trace_cases [of e m fuel])
  case vm_hangs
  with assms show ?thesis by (simp add: Cons_eq_append_conv)
next
  case (kmalloc_hangs m1)
  with assms show ?thesis by (auto simp: Cons_eq_append_conv)
next
  case (runs m1 p m2)
  from runs(3) assms show ?thesis
    by (intro split_after_two [where s = "Store thread_enable_reg v" and post = post]) simp_all
qed

text \<open>The hypothesis of C1 is met by the run with the page-mapping allocator.\<close>

theorem release_after_vm_init_witness:
  "trace (final (kernel_main page_env 1 (boot_world blank_memory))) =
     [Call_vm_init, Ret_vm_init, Kprintf ''Hello kernel land\<newline>'' [],
      Call_kmalloc 0x1000, Ret_kmalloc 0x10000, Store 0x10000 0xabcdef12,
      Load 0x10000 0xabcdef12, Kprintf ''%08x\<newline>'' [0xabcdef12]]
     @ Store thread_enable_reg 0xffffffff # []
   \<and> (\<exists>rest. [Call_vm_init, Ret_vm_init, Kprintf ''Hello kernel land\<newline>'' [],
      Call_kmalloc 0x1000, Ret_kmalloc 0x10000, Store 0x10000 0xabcdef12,
      Load 0x10000 0xabcdef12, Kprintf ''%08x\<newline>'' [0xabcdef12]]
        = Call_vm_init # Ret_vm_init # rest)"
proof -
  have h: "trace (final (kernel_main page_env 1 (boot_world blank_memory))) =
     [Call_vm_init, Ret_vm_init, Kprintf ''Hello kernel land\<newline>'' [],
      Call_kmalloc 0x1000, Ret_kmalloc 0x10000, Store 0x10000 0xabcdef12,
      Load 0x10000 0xabcdef12, Kprintf ''%08x\<newline>'' [0xabcdef12]]
     @ Store thread_enable_reg 0xffffffff # []"
    by (simp add: page_env_trace thread_enable_reg_def)
  from release_after_vm_init [OF h] h show ?thesis by blast
qed



text \<open>
  C2. When \<open>vm_init\<close> has returned and \<open>kmalloc(0x1000)\<close> returns a usable block (not null,
  its 4096 bytes mapped and writable), the value read back through the pointer is the
  sentinel \<open>0xabcdef12\<close> that was stored through it: \<open>kernel_main\<close> stores it, loads it
  in the next action and passes the loaded value \<open>0xabcdef12\<close> to \<open>kprintf\<close>.
\<close>

theorem smoke_test_round_trip:
  assumes "vm_init_impl e m = Some m1"
    and "kmalloc_impl e 0x1000 m1 = Some (p, m2)"
    and "usable_block m2 p 0x1000"
  shows "mem_load32 p (mem_store32 p 0xabcdef12 m2) = 0xabcdef12 \<and>
    (\<exists>pre post. trace (final (kernel_main e fuel (boot_world m))) =
       pre @ [Store p 0xabcdef12, Load p 0xabcdef12, Kprintf ''%08x\<newline>'' [0xabcdef12]] @ post)"
proof -
  have rb: "mem_load32 p (mem_store32 p 0xabcdef12 m2) = 0xabcdef12"
    using assms(3) by (rule usable_block_readback) simp
  have "trace (final (kernel_main e fuel (boot_world m))) =
      [Call_vm_init, Ret_vm_init, Kprintf ''Hello kernel land\<newline>'' [],
       Call_kmalloc 0x1000, Ret_kmalloc p]
      @ [Store p 0xabcdef12, Load p 0xabcdef12, Kprintf ''%08x\<newline>'' [0xabcdef12]]
      @ [Store 0xffff0100 0xffffffff]"
    using assms(1,2) by (simp add: kernel_main_runs [where ?m1.0 = m1 and ?m2.0 = m2 and p = p] rb)
  then show ?thesis using rb by blast
qed

text \<open>The hypotheses of C2 are met by the page-mapping allocator: its block is usable.\<close>

theorem smoke_test_round_trip_witness:
  "vm_init_impl page_env blank_memory = Some blank_memory \<and>
   kmalloc_impl page_env 0x1000 blank_memory = Some (0x10000, page_memory) \<and>
   usable_block page_memory 0x10000 0x1000 \<and>
   mem_load32 0x10000 (mem_store32 0x10000 0xabcdef12 page_memory) = 0xabcdef12 \<and>
   (\<exists>pre post. trace (final (kernel_main page_env 2 (boot_world blank_memory))) =
       pre @ [Store 0x10000 0xabcdef12, Load 0x10000 0xabcdef12,
              Kprintf ''%08x\<newline>'' [0xabcdef12]] @ post)"
  using smoke_test_round_trip [OF page_env_run page_memory_usable, of 2]
    page_env_run page_memory_usable
  by simp

text \<open>
  C3. The claim is that a failed allocation stops the boot sequence before the smoke-test
  write through the returned pointer. \<open>kernel_main\<close> does not look at the pointer it gets
  from \<open>kmalloc\<close>: with an allocator that answers with a null pointer and maps nothing,
  the smoke-test store is issued through address 0.
\<close>

theorem allocation_failure_counterexample:
  "vm_init_impl null_env blank_memory = Some blank_memory \<and>
   kmalloc_impl null_env 0x1000 blank_memory = Some (0, blank_memory) \<and>
   \<not> usable_block blank_memory 0 0x1000 \<and>
   Store 0 0xabcdef12 \<in> set (trace (final (kernel_main null_env 0 (boot_world blank_memory))))"
  by (simp add: null_env_run null_env_trace usable_block_def)

text \<open>
  C3, as the code has it. Once \<open>vm_init\<close> has returned: whatever pointer \<open>kmalloc\<close>
  returns, null included, the action of \<open>kernel_main\<close> that follows the return of
  \<open>kmalloc\<close> is the store of the sentinel through that pointer; nothing tests the pointer
  in between. When \<open>kmalloc\<close> does not return, the trace ends with the call and no store
  is issued. Nothing is said here about what comes after the store: that depends on
  whether the store completes.
\<close>

theorem allocation_result_unchecked:
  assumes "vm_init_impl e m = Some m1"
  shows "(\<forall>p m2. kmalloc_impl e 0x1000 m1 = Some (p, m2) \<longrightarrow>
            (\<exists>post. trace (final (kernel_main e fuel (boot_world m))) =
               [Call_vm_init, Ret_vm_init, Kprintf ''Hello kernel land\<newline>'' [],
                Call_kmalloc 0x1000, Ret_kmalloc p, Store p 0xabcdef12] @ post))
       \<and> (kmalloc_impl e 0x1000 m1 = None \<longrightarrow>
            trace (final (kernel_main e fuel (boot_world m))) =
              [Call_vm_init, Ret_vm_init, Kprintf ''Hello kernel land\<newline>'' [],
               Call_kmalloc 0x1000])"
proof (intro conjI allI impI)
  fix p m2
  assume k: "kmalloc_impl e 0x1000 m1 = Some (p, m2)"
  have "trace (final (kernel_main e fuel (boot_world m))) =
      [Call_vm_init, Ret_vm_init, Kprintf ''Hello kernel land\<newline>'' [],
       Call_kmalloc 0x1000, Ret_kmalloc p, Store p 0xabcdef12]
      @ [Load p (mem_load32 p (mem_store32 p 0xabcdef12 m2)),
         Kprintf ''%08x\<newline>'' [mem_load32 p (mem_store32 p 0xabcdef12 m2)],
         Store 0xffff0100 0xffffffff]"
    using assms k
    by (simp add: kernel_main_runs [where ?m1.0 = m1 and ?m2.0 = m2 and p = p])
  then show "\<exists>post. trace (final (kernel_main e fuel (boot_world m))) =
               [Call_vm_init, Ret_vm_init, Kprintf ''Hello kernel land\<newline>'' [],
                Call_kmalloc 0x1000, Ret_kmalloc p, Store p 0xabcdef12] @ post"
    by blast
next
  assume k: "kmalloc_impl e 0x1000 m1 = None"
  with assms show "trace (final (kernel_main e fuel (boot_world m))) =
      [Call_vm_init, Ret_vm_init, Kprintf ''Hello kernel land\<newline>'' [], Call_kmalloc 0x1000]"
    by (simp add: kernel_main_kmalloc_hangs [where ?m1.0 = m1])
qed

text \<open>
  The hypotheses of C3 are met by the allocator that returns null and by the one that
  never returns.
\<close>

theorem allocation_result_unchecked_witness:
  "vm_init_impl null_env blank_memory = Some blank_memory \<and>
   kmalloc_impl null_env 0x1000 blank_memory = Some (0, blank_memory) \<and>
   (\<exists>post. trace (final (kernel_main null_env 1 (boot_world blank_memory))) =
      [Call_vm_init, Ret_vm_init, Kprintf ''Hello kernel land\<newline>'' [],
       Call_kmalloc 0x1000, Ret_kmalloc 0, Store 0 0xabcdef12] @ post) \<and>
   vm_init_impl hang_env blank_memory = Some blank_memory \<and>
   kmalloc_impl hang_env 0x1000 blank_memory = None \<and>
   trace (final (kernel_main hang_env 1 (boot_world blank_memory))) =
     [Call_vm_init, Ret_vm_init, Kprintf ''Hello kernel land\<newline>'' [], Call_kmalloc 0x1000]"
  using allocation_result_unchecked [OF null_env_run(1), of 1]
    allocation_result_unchecked [OF hang_env_run(1), of 1]
    null_env_run hang_env_run
  by simp

text \<open>
  C4. In a boot in which both callees return, and the block handed out by \<open>kmalloc\<close> is
  not the register itself, \<open>kernel_main\<close> stores to the thread enable register, the fixed
  address \<open>0xffff0100\<close>, exactly once, and the value stored has all 32 bits set.
  \<open>thread_n_main\<close> issues no store at all, so nothing else in \<open>main.c\<close> writes the
  register.
\<close>

theorem thread_enable_written_once:
  assumes "vm_init_impl e m = Some m1"
    and "kmalloc_impl e 0x1000 m1 = Some (p, m2)"
    and "p \<noteq> thread_enable_reg"
  shows "thread_enable_reg = 0xffff0100 \<and>
    filter (is_store_to thread_enable_reg) (trace (final (kernel_main e fuel (boot_world m))))
      = [Store thread_enable_reg 0xffffffff] \<and>
    (\<forall>i<32. bit (0xffffffff :: u32) i) \<and>
    filter is_store (trace (final (thread_n_main cr fuel' w))) = filter is_store (trace w)"
proof (intro conjI)
  show "thread_enable_reg = 0xffff0100" by (simp add: thread_enable_reg_def)
  show "filter (is_store_to thread_enable_reg) (trace (final (kernel_main e fuel (boot_world m))))
      = [Store thread_enable_reg 0xffffffff]"
    using assms
    by (simp add: kernel_main_runs [where ?m1.0 = m1 and ?m2.0 = m2 and p = p]
        thread_enable_reg_def)
  have "(0xffffffff :: u32) = - 1" by simp
  then show "\<forall>i<32. bit (0xffffffff :: u32) i" by (simp only: bit_minus_1_iff) simp
  show "filter is_store (trace (final (thread_n_main cr fuel' w))) = filter is_store (trace w)"
    by (simp add: thread_n_main_runs)
qed

text \<open>
  The hypotheses of C4 are met by the page-mapping allocator.
\<close>

theorem thread_enable_written_once_witness:
  "vm_init_impl page_env blank_memory = Some blank_memory \<and>
   kmalloc_impl page_env 0x1000 blank_memory = Some (0x10000, page_memory) \<and>
   (0x10000 :: addr) \<noteq> thread_enable_reg \<and>
   filter (is_store_to thread_enable_reg)
     (trace (final (kernel_main page_env 3 (boot_world blank_memory))))
      = [Store thread_enable_reg 0xffffffff] \<and>
   filter is_store (trace (final (thread_n_main (\<lambda>i. 5) 3 (boot_world blank_memory)))) = []"
proof -
  have ne: "(0x10000 :: addr) \<noteq> thread_enable_reg" by (simp add: thread_enable_reg_def)
  from thread_enable_written_once [OF page_env_run ne, of 3 "\<lambda>i. 5" 3 "boot_world blank_memory"]
    page_env_run ne
  show ?thesis by simp
qed

text \<open>
  C5. \<open>kernel_main\<close> never returns: for every behaviour of the callees, every starting
  state and every amount of fuel the outcome is not a return. Whenever both callees
  return, whatever \<open>kmalloc\<close> returns, the outcome is the idle loop, which is the last
  statement of the function.
\<close>

theorem kernel_main_never_returns:
  "\<not> returned (kernel_main e fuel w) \<and>
   (\<forall>m1 p m2. vm_init_impl e (mem w) = Some m1 \<longrightarrow> kmalloc_impl e 0x1000 m1 = Some (p, m2) \<longrightarrow>
      spinning (kernel_main e fuel w))"
proof (cases "vm_init_impl e (mem w)")
  case None
  then show ?thesis by (simp add: kernel_main_vm_hangs)
next
  case (Some m1)
  show ?thesis
  proof (cases "kmalloc_impl e 0x1000 m1")
    case None
    with Some show ?thesis by (simp add: kernel_main_kmalloc_hangs [where ?m1.0 = m1])
  next
    case (Some pm)
    obtain p m2 where "pm = (p, m2)" by (cases pm)
    with Some \<open>vm_init_impl e (mem w) = Some m1\<close> show ?thesis
      by (simp add: kernel_main_runs [where ?m1.0 = m1 and ?m2.0 = m2 and p = p])
  qed
qed

text \<open>
  The hypotheses of C5 are met on the failure path, by the allocator that returns null.
\<close>

theorem kernel_main_never_returns_witness:
  "\<not> returned (kernel_main null_env 7 (boot_world blank_memory)) \<and>
   vm_init_impl null_env (mem (boot_world blank_memory)) = Some blank_memory \<and>
   kmalloc_impl null_env 0x1000 blank_memory = Some (0, blank_memory) \<and>
   spinning (kernel_main null_env 7 (boot_world blank_memory))"
  using kernel_main_never_returns [of null_env 7 "boot_world blank_memory"] null_env_run
  by simp

text \<open>
  C6. On any hardware thread, with control registers \<open>cr\<close>, \<open>thread_n_main\<close> does exactly
  two things and then spins: it reads control register 0 with the builtin, which is not
  a memory access and leaves memory as it was, and it calls \<open>kprintf\<close> with the integer
  format \<open>%d\<close> and the value just read. It never returns.
\<close>

theorem thread_n_main_behaviour:
  "trace (final (thread_n_main cr fuel w)) =
     trace w @ [Read_control_reg 0 (cr 0), Kprintf ''%d'' [cr 0]] \<and>
   mem (final (thread_n_main cr fuel w)) = mem w \<and>
   spinning (thread_n_main cr fuel w) \<and> \<not> returned (thread_n_main cr fuel w)"
  by (simp add: thread_n_main_runs)

text \<open>
  C7. Whatever value \<open>v\<close> the load through the block gives, equal to the sentinel or
  not, the actions that follow the load are the same: \<open>v\<close> is passed to \<open>kprintf\<close>, the
  thread enable register is written, and \<open>kernel_main\<close> ends in the idle loop. Nothing
  is compared and nothing halts.
\<close>

theorem mismatch_not_fatal:
  assumes "vm_init_impl e m = Some m1"
    and "kmalloc_impl e 0x1000 m1 = Some (p, m2)"
    and "v = mem_load32 p (mem_store32 p 0xabcdef12 m2)"
  shows "(\<exists>pre. trace (final (kernel_main e fuel (boot_world m))) =
            pre @ [Load p v, Kprintf ''%08x\<newline>'' [v], Store thread_enable_reg 0xffffffff])
    \<and> spinning (kernel_main e fuel (boot_world m))"
proof
  have "trace (final (kernel_main e fuel (boot_world m))) =
      [Call_vm_init, Ret_vm_init, Kprintf ''Hello kernel land\<newline>'' [],
       Call_kmalloc 0x1000, Ret_kmalloc p, Store p 0xabcdef12]
      @ [Load p v, Kprintf ''%08x\<newline>'' [v], Store thread_enable_reg 0xffffffff]"
    using assms
    by (simp add: kernel_main_runs [where ?m1.0 = m1 and ?m2.0 = m2 and p = p]
        thread_enable_reg_def)
  then show "\<exists>pre. trace (final (kernel_main e fuel (boot_world m))) =
            pre @ [Load p v, Kprintf ''%08x\<newline>'' [v], Store thread_enable_reg 0xffffffff]"
    by blast
  show "spinning (kernel_main e fuel (boot_world m))"
    using assms by (simp add: kernel_main_runs [where ?m1.0 = m1 and ?m2.0 = m2 and p = p])
qed

text \<open>
  The hypotheses of C7 are met in a run with a mismatch: the block is not mapped, the
  store is lost and the load gives 0.
\<close>

theorem mismatch_not_fatal_witness:
  "vm_init_impl null_env blank_memory = Some blank_memory \<and>
   kmalloc_impl null_env 0x1000 blank_memory = Some (0, blank_memory) \<and>
   (0 :: u32) = mem_load32 0 (mem_store32 0 0xabcdef12 blank_memory) \<and>
   (0 :: u32) \<noteq> 0xabcdef12 \<and>
   (\<exists>pre. trace (final (kernel_main null_env 4 (boot_world blank_memory))) =
      pre @ [Load 0 0, Kprintf ''%08x\<newline>'' [0], Store thread_enable_reg 0xffffffff]) \<and>
   spinning (kernel_main null_env 4 (boot_world blank_memory))"
proof -
  have v: "(0 :: u32) = mem_load32 0 (mem_store32 0 0xabcdef12 blank_memory)"
    by (simp add: blank_memory_store blank_memory_load)
  from mismatch_not_fatal [OF null_env_run v, of 4] null_env_run v
  show ?thesis by simp
qed

text \<open>
  C8. When both callees return, the actions of \<open>kernel_main\<close> are, in this order: the
  call of \<open>vm_init\<close> and its return, the greeting, the request for \<open>0x1000\<close> bytes and
  its answer, the store of the sentinel through the block, the load through the block,
  the print of the loaded value, the store to the thread enable register; then the idle
  loop.
\<close>

theorem kernel_main_order:
  assumes "vm_init_impl e m = Some m1"
    and "kmalloc_impl e 0x1000 m1 = Some (block, m2)"
  shows "\<exists>v. kernel_main e fuel (boot_world m) = Spinning (final (kernel_main e fuel (boot_world m)))
    \<and> trace (final (kernel_main e fuel (boot_world m))) =
       [Call_vm_init, Ret_vm_init,
        Kprintf ''Hello kernel land\<newline>'' [],
        Call_kmalloc 0x1000, Ret_kmalloc block,
        Store block 0xabcdef12,
        Load block v,
        Kprintf ''%08x\<newline>'' [v],
        Store thread_enable_reg 0xffffffff]"
  using assms
  by (simp add: kernel_main_runs [where ?m1.0 = m1 and ?m2.0 = m2 and p = block]
      thread_enable_reg_def)

text \<open>
  The hypotheses of C8 are met by the page-mapping allocator.
\<close>

theorem kernel_main_order_witness:
  "vm_init_impl page_env blank_memory = Some blank_memory \<and>
   kmalloc_impl page_env 0x1000 blank_memory = Some (0x10000, page_memory) \<and>
   (\<exists>v. kernel_main page_env 5 (boot_world blank_memory)
          = Spinning (final (kernel_main page_env 5 (boot_world blank_memory)))
    \<and> trace (final (kernel_main page_env 5 (boot_world blank_memory))) =
       [Call_vm_init, Ret_vm_init,
        Kprintf ''Hello kernel land\<newline>'' [],
        Call_kmalloc 0x1000, Ret_kmalloc 0x10000,
        Store 0x10000 0xabcdef12,
        Load 0x10000 v,
        Kprintf ''%08x\<newline>'' [v],
        Store thread_enable_reg 0xffffffff])"
  using kernel_main_order [OF page_env_run, of 5] page_env_run
  by simp

text \<open>
  C9. The statement that stores 1 to address 1 is commented out: no run of
  \<open>kernel_main\<close> performs that store. When both callees return, the stores issued are
  the smoke-test store through the block and the store to the thread enable register,
  and nothing else; so no store goes to address 1 unless the allocator handed out
  address 1 as the block. When \<open>kmalloc\<close> does not return, no store is issued.
\<close>

theorem fault_path_disabled:
  "Store 1 1 \<notin> set (trace (final (kernel_main e fuel (boot_world m)))) \<and>
   (\<forall>m1 p m2. vm_init_impl e m = Some m1 \<longrightarrow> kmalloc_impl e 0x1000 m1 = Some (p, m2) \<longrightarrow>
      filter is_store (trace (final (kernel_main e fuel (boot_world m))))
        = [Store p 0xabcdef12, Store thread_enable_reg 0xffffffff]
      \<and> (p \<noteq> 1 \<longrightarrow> filter (is_store_to 1) (trace (final (kernel_main e fuel (boot_world m)))) = [])) \<and>
   (\<forall>m1. vm_init_impl e m = Some m1 \<longrightarrow> kmalloc_impl e 0x1000 m1 = None \<longrightarrow>
      filter is_store (trace (final (kernel_main e fuel (boot_world m)))) = [])"
proof (cases rule: kernel_main_trace_cases [of e m fuel])
  case vm_hangs
  then show ?thesis by simp
next
  case (kmalloc_hangs m1)
  then show ?thesis by simp
next
  case (runs m1 p m2)
  then show ?thesis by (simp add: thread_enable_reg_def)
qed

text \<open>
  The hypotheses of C9 are met by the page-mapping allocator and by the allocator that
  never returns.
\<close>

theorem fault_path_disabled_witness:
  "Store 1 1 \<notin> set (trace (final (kernel_main page_env 2 (boot_world blank_memory)))) \<and>
   vm_init_impl page_env blank_memory = Some blank_memory \<and>
   kmalloc_impl page_env 0x1000 blank_memory = Some (0x10000, page_memory) \<and>
   filter is_store (trace (final (kernel_main page_env 2 (boot_world blank_memory))))
     = [Store 0x10000 0xabcdef12, Store thread_enable_reg 0xffffffff] \<and>
   (0x10000 :: addr) \<noteq> 1 \<and>
   filter (is_store_to 1) (trace (final (kernel_main page_env 2 (boot_world blank_memory)))) = [] \<and>
   vm_init_impl hang_env blank_memory = Some blank_memory \<and>
   kmalloc_impl hang_env 0x1000 blank_memory = None \<and>
   filter is_store (trace (final (kernel_main hang_env 2 (boot_world blank_memory)))) = []"
  using fault_path_disabled [of page_env 2 blank_memory]
    fault_path_disabled [of hang_env 2 blank_memory] page_env_run hang_env_run
  by simp

text \<open>
  C10. When both callees return, the console output of \<open>kernel_main\<close> is the greeting
  line followed by the value read back as eight hexadecimal digits and a newline; with a
  usable block that is \<open>Hello kernel land\<close>, newline, \<open>abcdef12\<close>, newline.
  \<open>thread_n_main\<close> calls \<open>kprintf\<close> once, with \<open>%d\<close>, and adds the decimal digits of
  control register 0 to the console, with no newline.
\<close>

theorem diagnostic_output:
  assumes "vm_init_impl e m = Some m1"
    and "kmalloc_impl e 0x1000 m1 = Some (p, m2)"
    and "v = mem_load32 p (mem_store32 p 0xabcdef12 m2)"
  shows "console (final (kernel_main e fuel (boot_world m)))
           = ''Hello kernel land\<newline>'' @ hex8 v @ ''\<newline>''
    \<and> (usable_block m2 p 0x1000 \<longrightarrow>
          console (final (kernel_main e fuel (boot_world m)))
            = ''Hello kernel land\<newline>abcdef12\<newline>'')
    \<and> console (final (thread_n_main cr fuel' w)) = console w @ dec_of (cr 0)
    \<and> CHR ''\<newline>'' \<notin> set (dec_of (cr 0))
    \<and> filter (\<lambda>ev. \<exists>f a. ev = Kprintf f a) (trace (final (thread_n_main cr fuel' (boot_world m))))
        = [Kprintf ''%d'' [cr 0]]"
proof (intro conjI impI)
  show c: "console (final (kernel_main e fuel (boot_world m)))
           = ''Hello kernel land\<newline>'' @ hex8 v @ ''\<newline>''"
    using assms
    by (simp add: kernel_main_runs [where ?m1.0 = m1 and ?m2.0 = m2 and p = p] kformat_hex
        del: kformat.simps)
  show "console (final (kernel_main e fuel (boot_world m))) = ''Hello kernel land\<newline>abcdef12\<newline>''"
    if "usable_block m2 p 0x1000"
  proof -
    have "v = 0xabcdef12"
      unfolding assms(3) using that by (rule usable_block_readback) simp
    then show ?thesis unfolding c by (simp add: hex8_sentinel)
  qed
  show "console (final (thread_n_main cr fuel' w)) = console w @ dec_of (cr 0)"
    by (simp add: thread_n_main_runs kformat_dec del: kformat.simps)
  show "CHR ''\<newline>'' \<notin> set (dec_of (cr 0))"
    by (rule newline_not_in_dec_of)
  show "filter (\<lambda>ev. \<exists>f a. ev = Kprintf f a) (trace (final (thread_n_main cr fuel' (boot_world m))))
        = [Kprintf ''%d'' [cr 0]]"
    by (simp add: thread_n_main_runs)
qed

text \<open>
  The hypotheses of C10 are met by the page-mapping allocator; the worker is thread 3.
\<close>

theorem diagnostic_output_witness:
  "vm_init_impl page_env blank_memory = Some blank_memory \<and>
   kmalloc_impl page_env 0x1000 blank_memory = Some (0x10000, page_memory) \<and>
   (0xabcdef12 :: u32) = mem_load32 0x10000 (mem_store32 0x10000 0xabcdef12 page_memory) \<and>
   usable_block page_memory 0x10000 0x1000 \<and>
   console (final (kernel_main page_env 1 (boot_world blank_memory)))
     = ''Hello kernel land\<newline>abcdef12\<newline>'' \<and>
   console (final (thread_n_main (\<lambda>i. 3) 1 (boot_world blank_memory))) = ''3''"
proof -
  have v: "(0xabcdef12 :: u32) = mem_load32 0x10000 (mem_store32 0x10000 0xabcdef12 page_memory)"
    by (simp add: page_memory_readback)
  have d: "dec_of 3 = ''3''"
    by (simp add: dec_of_def dec_of_nat_def strip_zeros_def dec_digit_def)
  from diagnostic_output [OF page_env_run v, of 1 "\<lambda>i. 3" 1 "boot_world blank_memory"]
    page_env_run v page_memory_usable d
  show ?thesis by (simp add: hex8_sentinel)
qed

end
